theory Spec2Isabelle
  imports Complex_Main "HOL-Library.Word"
begin

unbundle bit_operations_syntax

section \<open>Package font: primitive types\<close>

text \<open>
  Go's fixed-width integers are words: \<open>uint16\<close> and \<open>uint32\<close> are read with \<open>unat\<close>,
  \<open>int32\<close> (and \<open>rune\<close>, its alias) with \<open>sint\<close>. \<open>type GID uint32\<close> (face.go, line 85).
\<close>

type_synonym uint16 = "16 word"
type_synonym int32 = "32 word"
type_synonym rune = "32 word"
type_synonym GID = "32 word"

text \<open>
  A Go \<open>float32\<close> is an IEEE 754 binary32 value: one sign bit, eight exponent bits and
  twenty-three fraction bits. The model keeps the bit pattern; no arithmetic on it is
  needed, since the package declares data and method signatures only.
\<close>

datatype float32 = Float32 (float32_bits: "32 word")

text \<open>
  The number a \<open>float32\<close> stands for, in font units: \<open>None\<close> for the infinities and the
  NaNs (exponent field 255), the subnormal value for exponent field 0, and
  \<open>(1 + m / 2^23) * 2^(e - 127)\<close> otherwise, written over one denominator.
\<close>

definition float32_font_units :: "float32 \<Rightarrow> rat option" where
  "float32_font_units f =
     (let b = float32_bits f;
          e = unat (drop_bit 23 b AND 0xFF);
          m = unat (b AND 0x7FFFFF);
          s = (if bit b 31 then - 1 else 1)
      in if e = 255 then None
         else if e = 0 then Some (s * of_nat m / 2 ^ 149)
         else Some (s * of_nat (2 ^ 23 + m) * 2 ^ e / 2 ^ 150))"

text \<open>The number an \<open>int32\<close> stands for, in font units: its two's complement value.\<close>

definition int32_font_units :: "int32 \<Rightarrow> rat" where
  "int32_font_units x = of_int (sint x)"

text \<open>\<open>type FontExtents struct\<close> (face.go, lines 89-93).\<close>

record FontExtents =
  Ascender :: float32
  Descender :: float32
  LineGap :: float32

text \<open>\<open>type GlyphExtents struct\<close> (face.go, lines 97-102).\<close>

record GlyphExtents =
  XBearing :: float32
  YBearing :: float32
  Width :: float32
  Height :: float32

section \<open>Package font: the interfaces\<close>

text \<open>
  A Go interface is a method set, so a value of the interface is modelled as the record
  of its methods: one field per method, with the method's parameter and result types. A
  method without parameters is a field of its result type. A slice \<open>[]float32\<close> is a
  list (the nil slice is the empty list), and a multi-valued result is a tuple in the
  order of the signature.

  The record fixes what the interface fixes, the signatures, and nothing more: the
  package holds no implementation of any method, and what a comment asks of one
  (\<open>should return 1000 as fallback value\<close>) is not part of the type.

  \<open>type FaceMetrics interface\<close> (face.go, lines 25-74).
\<close>

record FaceMetrics =
  Upem :: uint16
  GlyphName :: "GID \<Rightarrow> string"
  FontHExtents :: "float32 list \<Rightarrow> FontExtents \<times> bool"
  FontVExtents :: "float32 list \<Rightarrow> FontExtents \<times> bool"
  NominalGlyph :: "rune \<Rightarrow> GID \<times> bool"
  HorizontalAdvance :: "GID \<Rightarrow> float32 list \<Rightarrow> float32"
  VerticalAdvance :: "GID \<Rightarrow> float32 list \<Rightarrow> float32"
  GlyphHOrigin :: "GID \<Rightarrow> float32 list \<Rightarrow> int32 \<times> int32 \<times> bool"
  GlyphVOrigin :: "GID \<Rightarrow> float32 list \<Rightarrow> int32 \<times> int32 \<times> bool"
  GlyphExtents :: "GID \<Rightarrow> float32 list \<Rightarrow> uint16 \<Rightarrow> uint16 \<Rightarrow> GlyphExtents \<times> bool"
  NormalizeVariations :: "float32 list \<Rightarrow> float32 list"

text \<open>
  \<open>type Face interface { FaceMetrics; FaceRenderer }\<close> (face.go, lines 16-19 and 77-80):
  the methods of \<open>FaceMetrics\<close> and the one method of \<open>FaceRenderer\<close>, \<open>Draw(glyph GID)\<close>,
  which returns nothing.
\<close>

record Face = FaceMetrics +
  Draw :: "GID \<Rightarrow> unit"

section \<open>Package opentype\<close>

text \<open>
  The layout tables are declared as placeholders without fields, \<open>TableGDEF struct{}\<close>
  and so on (lines 51-68), as are \<open>Face struct{}\<close> (line 31) and \<open>TableFvar struct{}\<close>
  (line 35). The \<open>Class\<close> of a GDEF table and the lookups of a GSUB or GPOS table, which
  the comments of \<open>TablesLayout\<close> name, are not declared, so no property of a table's
  content can be stated on these types.
\<close>

datatype TableGDEF = TableGDEF
datatype TableTrak = TableTrak
datatype TableAnkr = TableAnkr
datatype TableFeat = TableFeat
datatype TableMorx = TableMorx
datatype TableKernx = TableKernx
datatype TableGSUB = TableGSUB
datatype TableGPOS = TableGPOS
datatype TableFvar = TableFvar
datatype opentype_Face = opentype_Face

text \<open>\<open>type TablesLayout struct\<close> (lines 39-49).\<close>

record TablesLayout =
  GDEF :: TableGDEF
  Trak :: TableTrak
  Ankr :: TableAnkr
  Feat :: TableFeat
  Morx :: TableMorx
  Kern :: TableKernx
  Kerx :: TableKernx
  GSUB :: TableGSUB
  GPOS :: TableGPOS

text \<open>
  \<open>type FaceOpentype interface\<close> (lines 13-27): a \<open>font.Face\<close> with three more methods.
  \<open>IsGraphite\<close> returns a pointer, which may be nil, and a flag.
\<close>

record FaceOpentype = Face +
  TablesLayout :: TablesLayout
  Variations :: TableFvar
  IsGraphite :: "opentype_Face option \<times> bool"

section \<open>Numbers of font units\<close>

lemma int32_font_units_whole: "int32_font_units x \<in> \<int>"
  by (simp only: int32_font_units_def Ints_of_int)

lemma int32_font_units_range:
  "- (2 ^ 31) \<le> int32_font_units x \<and> int32_font_units x < 2 ^ 31"
proof -
  have "- (2 ^ 31) \<le> sint x" and "sint x < 2 ^ 31"
    using sint_ge [of x] sint_lt [of x] by simp_all
  then have "(of_int (- (2 ^ 31)) :: rat) \<le> of_int (sint x)"
    and "(of_int (sint x) :: rat) < of_int (2 ^ 31)"
    by (simp_all only: of_int_le_iff of_int_less_iff)
  then show ?thesis
    by (simp add: int32_font_units_def)
qed

lemma half_not_whole: "(1 / 2 :: rat) \<notin> \<int>"
proof
  assume "(1 / 2 :: rat) \<in> \<int>"
  then obtain k :: int where "(1 / 2 :: rat) = of_int k"
    by (auto elim: Ints_cases)
  then have "(1 :: rat) = of_int (2 * k)"
    by simp
  then have "(1 :: int) = 2 * k"
    using of_int_eq_iff [where 'a = rat, of 1 "2 * k"] by simp
  then show False
    by presburger
qed

lemma float32_font_units_half: "float32_font_units (Float32 0x3F000000) = Some (1 / 2)"
  by (simp add: float32_font_units_def Let_def)

section \<open>Glyph origins are whole numbers of font units\<close>

text \<open>
  C10: for every face, glyph id and coordinate sequence, \<open>GlyphHOrigin\<close> and
  \<open>GlyphVOrigin\<close> return the coordinates \<open>x\<close> and \<open>y\<close> of the origin as \<open>int32\<close>: each
  is a whole number of font units, between \<open>-2^31\<close> and \<open>2^31 - 1\<close>, whatever the
  \<open>found\<close> flag says. The advances and the extents are \<open>float32\<close>, which holds
  fractions: an implementation of the interface can return half a font unit for both
  advances and for every field of the font's and the glyph's extents.
\<close>

theorem GlyphOrigin_whole_font_units:
  "(case GlyphHOrigin (f :: 'a FaceMetrics_scheme) glyph varCoords of
      (x, y, found) \<Rightarrow>
        int32_font_units x \<in> \<int> \<and> - (2 ^ 31) \<le> int32_font_units x \<and> int32_font_units x < 2 ^ 31
        \<and> int32_font_units y \<in> \<int> \<and> - (2 ^ 31) \<le> int32_font_units y \<and> int32_font_units y < 2 ^ 31)
   \<and> (case GlyphVOrigin f glyph varCoords of
      (x, y, found) \<Rightarrow>
        int32_font_units x \<in> \<int> \<and> - (2 ^ 31) \<le> int32_font_units x \<and> int32_font_units x < 2 ^ 31
        \<and> int32_font_units y \<in> \<int> \<and> - (2 ^ 31) \<le> int32_font_units y \<and> int32_font_units y < 2 ^ 31)
   \<and> (\<exists>(m :: FaceMetrics) u. u \<notin> \<int>
        \<and> float32_font_units (HorizontalAdvance m glyph varCoords) = Some u
        \<and> float32_font_units (VerticalAdvance m glyph varCoords) = Some u
        \<and> float32_font_units (Ascender (fst (FontHExtents m varCoords))) = Some u
        \<and> float32_font_units (Descender (fst (FontHExtents m varCoords))) = Some u
        \<and> float32_font_units (LineGap (fst (FontHExtents m varCoords))) = Some u
        \<and> float32_font_units (Ascender (fst (FontVExtents m varCoords))) = Some u
        \<and> float32_font_units (Descender (fst (FontVExtents m varCoords))) = Some u
        \<and> float32_font_units (LineGap (fst (FontVExtents m varCoords))) = Some u
        \<and> float32_font_units (XBearing (fst (GlyphExtents m glyph varCoords xPpem yPpem))) = Some u
        \<and> float32_font_units (YBearing (fst (GlyphExtents m glyph varCoords xPpem yPpem))) = Some u
        \<and> float32_font_units (Width (fst (GlyphExtents m glyph varCoords xPpem yPpem))) = Some u
        \<and> float32_font_units (Height (fst (GlyphExtents m glyph varCoords xPpem yPpem))) = Some u)"
proof (intro conjI)
  show "case GlyphHOrigin f glyph varCoords of
      (x, y, found) \<Rightarrow>
        int32_font_units x \<in> \<int> \<and> - (2 ^ 31) \<le> int32_font_units x \<and> int32_font_units x < 2 ^ 31
        \<and> int32_font_units y \<in> \<int> \<and> - (2 ^ 31) \<le> int32_font_units y \<and> int32_font_units y < 2 ^ 31"
    using int32_font_units_whole int32_font_units_range
    by (simp split: prod.split)
next
  show "case GlyphVOrigin f glyph varCoords of
      (x, y, found) \<Rightarrow>
        int32_font_units x \<in> \<int> \<and> - (2 ^ 31) \<le> int32_font_units x \<and> int32_font_units x < 2 ^ 31
        \<and> int32_font_units y \<in> \<int> \<and> - (2 ^ 31) \<le> int32_font_units y \<and> int32_font_units y < 2 ^ 31"
    using int32_font_units_whole int32_font_units_range
    by (simp split: prod.split)
next
  let ?h = "Float32 0x3F000000"
  let ?m = "\<lparr>Upem = 1000,
      GlyphName = (\<lambda>glyph. []),
      FontHExtents = (\<lambda>varCoords. (\<lparr>Ascender = ?h, Descender = ?h, LineGap = ?h\<rparr>, True)),
      FontVExtents = (\<lambda>varCoords. (\<lparr>Ascender = ?h, Descender = ?h, LineGap = ?h\<rparr>, True)),
      NominalGlyph = (\<lambda>ch. (0, False)),
      HorizontalAdvance = (\<lambda>glyph varCoords. ?h),
      VerticalAdvance = (\<lambda>glyph varCoords. ?h),
      GlyphHOrigin = (\<lambda>glyph varCoords. (0, 0, False)),
      GlyphVOrigin = (\<lambda>glyph varCoords. (0, 0, False)),
      GlyphExtents = (\<lambda>glyph varCoords xPpem yPpem.
        (\<lparr>XBearing = ?h, YBearing = ?h, Width = ?h, Height = ?h\<rparr>, True)),
      NormalizeVariations = (\<lambda>varCoords. varCoords)\<rparr>"
  show "\<exists>(m :: FaceMetrics) u. u \<notin> \<int>
        \<and> float32_font_units (HorizontalAdvance m glyph varCoords) = Some u
        \<and> float32_font_units (VerticalAdvance m glyph varCoords) = Some u
        \<and> float32_font_units (Ascender (fst (FontHExtents m varCoords))) = Some u
        \<and> float32_font_units (Descender (fst (FontHExtents m varCoords))) = Some u
        \<and> float32_font_units (LineGap (fst (FontHExtents m varCoords))) = Some u
        \<and> float32_font_units (Ascender (fst (FontVExtents m varCoords))) = Some u
        \<and> float32_font_units (Descender (fst (FontVExtents m varCoords))) = Some u
        \<and> float32_font_units (LineGap (fst (FontVExtents m varCoords))) = Some u
        \<and> float32_font_units (XBearing (fst (GlyphExtents m glyph varCoords xPpem yPpem))) = Some u
        \<and> float32_font_units (YBearing (fst (GlyphExtents m glyph varCoords xPpem yPpem))) = Some u
        \<and> float32_font_units (Width (fst (GlyphExtents m glyph varCoords xPpem yPpem))) = Some u
        \<and> float32_font_units (Height (fst (GlyphExtents m glyph varCoords xPpem yPpem))) = Some u"
    by (rule exI [of _ ?m], rule exI [of _ "1 / 2"])
      (simp only: half_not_whole float32_font_units_half FaceMetrics.simps
        FontExtents.simps GlyphExtents.simps fst_conv simp_thms)
qed

end
